theory Spec2Isabelle
  imports Complex_Main
begin

section \<open>Python and NumPy values used by \<^verbatim>\<open>CTC/CTC.py\<close>\<close>

text \<open>
  Floating point numbers are idealised as \<^typ>\<open>real\<close>: the development is about which
  cells are read, written and combined, and about the shapes NumPy accepts, not about
  rounding. Division by zero and the logarithm of a non-positive number give \<open>inf\<close>/\<open>nan\<close>
  in NumPy and an arbitrary real here, so every theorem that divides or takes a logarithm
  assumes the operand is non-zero (positive).

  An exception of the source is the \<open>Inl\<close> branch of a result.
\<close>

datatype error = IndexError | ValueError | TypeError

definition andthen :: "error + 'a \<Rightarrow> ('a \<Rightarrow> error + 'b) \<Rightarrow> error + 'b" where
  "andthen m f = (case m of Inl e \<Rightarrow> Inl e | Inr x \<Rightarrow> f x)"

text \<open>A loop body run over a list of indices in order; the first exception ends it.\<close>

fun traverse :: "('a \<Rightarrow> error + 'b) \<Rightarrow> 'a list \<Rightarrow> error + 'b list" where
  "traverse f [] = Inr []"
| "traverse f (x # xs) =
     (case f x of
        Inl e \<Rightarrow> Inl e
      | Inr y \<Rightarrow> (case traverse f xs of Inl e \<Rightarrow> Inl e | Inr ys \<Rightarrow> Inr (y # ys)))"

text \<open>\<^verbatim>\<open>xs[i]\<close>: a negative index counts from the end, anything else out of range raises.\<close>

definition py_get :: "'a list \<Rightarrow> int \<Rightarrow> error + 'a" where
  "py_get xs i =
     (if 0 \<le> i \<and> i < int (length xs) then Inr (xs ! nat i)
      else if i < 0 \<and> - int (length xs) \<le> i then Inr (xs ! nat (int (length xs) + i))
      else Inl IndexError)"

text \<open>\<^verbatim>\<open>xs[:k]\<close>: a slice never raises; a negative bound counts from the end.\<close>

definition slice_to :: "int \<Rightarrow> 'a list \<Rightarrow> 'a list" where
  "slice_to k xs = (if k < 0 then take (nat (int (length xs) + k)) xs else take (nat k) xs)"

text \<open>
  The methods of class \<^verbatim>\<open>CTC\<close> are duck-typed in \<^verbatim>\<open>logits\<close>: they only index it twice and
  store the result into a cell of a float array. \<^verbatim>\<open>CTCLoss\<close> hands them the three-dimensional
  batch tensor, so the value indexed is modelled with its nesting: a float, or an array of
  such values.
\<close>

datatype nd = Num real | Arr "nd list"

definition nd_len :: "nd \<Rightarrow> error + nat" where
  "nd_len a = (case a of Num x \<Rightarrow> Inl TypeError | Arr xs \<Rightarrow> Inr (length xs))"

definition nd_index :: "nd \<Rightarrow> int \<Rightarrow> error + nd" where
  "nd_index a i = (case a of Num x \<Rightarrow> Inl IndexError | Arr xs \<Rightarrow> py_get xs i)"

fun nd_map :: "(real \<Rightarrow> real) \<Rightarrow> nd \<Rightarrow> nd" where
  "nd_map f (Num x) = Num (f x)"
| "nd_map f (Arr xs) = Arr (map (nd_map f) xs)"

text \<open>
  Storing a value into one cell of a float array (\<^verbatim>\<open>alpha[t][s] = v\<close>): a float is stored as
  it is, an array of exactly one element is converted to that element (NumPy 1.x and the
  2.x releases that still accept the conversion, deprecated since 1.25), and any other array
  raises
  \<^verbatim>\<open>ValueError: setting an array element with a sequence\<close>.
\<close>

fun as_float :: "nd \<Rightarrow> error + real" where
  "as_float (Num x) = Inr x"
| "as_float (Arr [a]) = as_float a"
| "as_float (Arr xs) = Inl ValueError"

definition matrix :: "real list list \<Rightarrow> nd" where
  "matrix m = Arr (map (\<lambda>row. Arr (map Num row)) m)"

definition tensor :: "real list list list \<Rightarrow> nd" where
  "tensor x = Arr (map matrix x)"

section \<open>Class \<^verbatim>\<open>CTC\<close>\<close>

subsection \<open>\<^verbatim>\<open>extend_target_with_blank\<close>\<close>

text \<open>
  Lines 41 to 44: the list starts as \<^verbatim>\<open>[BLANK]\<close> and every symbol of the target appends itself
  and a blank. Lines 51 to 56: the flag at \<open>i\<close> is 1 when \<open>i + 2 < N\<close> and the symbols at
  \<open>i\<close> and \<open>i + 2\<close> differ. No statement of the method raises, so every result is \<open>Inr\<close>.
\<close>

definition extended_symbols_of :: "int \<Rightarrow> int list \<Rightarrow> int list" where
  "extended_symbols_of BLANK target = fold (\<lambda>symbol acc. acc @ [symbol, BLANK]) target [BLANK]"

definition skip_connect_of :: "int list \<Rightarrow> int list" where
  "skip_connect_of extended_symbols =
     (let N = length extended_symbols in
      map (\<lambda>i. if i + 2 < N \<and> extended_symbols ! i \<noteq> extended_symbols ! (i + 2) then 1 else 0)
        [0..<N])"

definition extend_target_with_blank :: "int \<Rightarrow> int list \<Rightarrow> error + (int list \<times> int list)" where
  "extend_target_with_blank BLANK target =
     (let extended_symbols = extended_symbols_of BLANK target;
          skip_connect = skip_connect_of extended_symbols
      in Inr (extended_symbols, skip_connect))"

subsection \<open>\<^verbatim>\<open>get_forward_probs\<close>\<close>

text \<open>
  One pass of the inner loop body (lines 101 to 107) for row \<open>t\<close> and position \<open>s\<close>, reading
  the row \<open>prev\<close> written for \<open>t - 1\<close>. \<open>s\<close> ranges over \<^verbatim>\<open>range(S)\<close>, so the reads of \<open>prev\<close>
  and of \<^verbatim>\<open>extended_symbols\<close> are in range; \<^verbatim>\<open>skip_connect[s]\<close> and the two indexings of
  \<^verbatim>\<open>logits\<close> can raise.
\<close>

definition forward_cell ::
  "nd \<Rightarrow> int list \<Rightarrow> int list \<Rightarrow> real list \<Rightarrow> nat \<Rightarrow> nat \<Rightarrow> error + real" where
  "forward_cell logits extended_symbols skip_connect prev t s =
     (let a0 = prev ! s;
          a1 = (if 1 \<le> s then a0 + prev ! (s - 1) else a0)
      in andthen (py_get skip_connect (int s)) (\<lambda>flag.
         let a2 = (if flag \<noteq> 0 \<and> 2 \<le> s then a1 + prev ! (s - 2) else a1)
         in andthen (nd_index logits (int t)) (\<lambda>row.
            andthen (nd_index row (extended_symbols ! s)) (\<lambda>p.
            as_float (nd_map (\<lambda>x. a2 * x) p)))))"

fun forward_rows ::
  "nd \<Rightarrow> int list \<Rightarrow> int list \<Rightarrow> real list \<Rightarrow> nat list \<Rightarrow> error + real list list" where
  "forward_rows logits extended_symbols skip_connect prev [] = Inr []"
| "forward_rows logits extended_symbols skip_connect prev (t # ts) =
     (case traverse (forward_cell logits extended_symbols skip_connect prev t)
             [0..<length extended_symbols] of
        Inl e \<Rightarrow> Inl e
      | Inr row \<Rightarrow>
          (case forward_rows logits extended_symbols skip_connect row ts of
             Inl e \<Rightarrow> Inl e
           | Inr rows \<Rightarrow> Inr (row # rows)))"

text \<open>\<^verbatim>\<open>logits[t][k]\<close> stored into a cell of a float array.\<close>

definition cell_of :: "nd \<Rightarrow> int \<Rightarrow> int \<Rightarrow> error + real" where
  "cell_of logits t k =
     andthen (nd_index logits t) (\<lambda>row. andthen (nd_index row k) as_float)"

definition get_forward_probs :: "nd \<Rightarrow> int list \<Rightarrow> int list \<Rightarrow> error + real list list" where
  "get_forward_probs logits extended_symbols skip_connect =
     (let S = length extended_symbols
      in andthen (nd_len logits) (\<lambda>T.
         andthen (nd_index logits 0) (\<lambda>r0.
         andthen (py_get extended_symbols 0) (\<lambda>e0.
         andthen (cell_of logits 0 e0) (\<lambda>a00.
         andthen (py_get extended_symbols 1) (\<lambda>e1.
         andthen (cell_of logits 0 e1) (\<lambda>a01.
         let alpha0 = (replicate S 0)[0 := a00, 1 := a01]
         in andthen (forward_rows logits extended_symbols skip_connect alpha0 [1..<T]) (\<lambda>rows.
            Inr (alpha0 # rows)))))))))"

subsection \<open>\<^verbatim>\<open>get_backward_probs\<close>\<close>

text \<open>
  Lines 146 to 151 for row \<open>t\<close> and position \<open>s\<close>, reading the row \<open>nxt\<close> written for
  \<open>t + 1\<close>. Both loops run over reversed ranges, which decides the exception raised first.
\<close>

definition backward_cell ::
  "nd \<Rightarrow> int list \<Rightarrow> int list \<Rightarrow> real list \<Rightarrow> nat \<Rightarrow> nat \<Rightarrow> error + real" where
  "backward_cell logits extended_symbols skip_connect nxt t s =
     (let S = length extended_symbols;
          b0 = nxt ! s;
          b1 = (if s + 1 < S then b0 + nxt ! (s + 1) else b0)
      in andthen (py_get skip_connect (int s)) (\<lambda>flag.
         let b2 = (if flag \<noteq> 0 \<and> s + 2 < S then b1 + nxt ! (s + 2) else b1)
         in andthen (nd_index logits (int t)) (\<lambda>row.
            andthen (nd_index row (extended_symbols ! s)) (\<lambda>p.
            as_float (nd_map (\<lambda>x. b2 * x) p)))))"

text \<open>
  The rows for \<open>t = T - 2, ..., 0\<close> in the order the loop writes them (the last time step
  first).
\<close>

fun backward_rows ::
  "nd \<Rightarrow> int list \<Rightarrow> int list \<Rightarrow> real list \<Rightarrow> nat list \<Rightarrow> error + real list list" where
  "backward_rows logits extended_symbols skip_connect nxt [] = Inr []"
| "backward_rows logits extended_symbols skip_connect nxt (t # ts) =
     (case traverse (backward_cell logits extended_symbols skip_connect nxt t)
             (rev [0..<length extended_symbols]) of
        Inl e \<Rightarrow> Inl e
      | Inr cells \<Rightarrow>
          (case backward_rows logits extended_symbols skip_connect (rev cells) ts of
             Inl e \<Rightarrow> Inl e
           | Inr rows \<Rightarrow> Inr (rev cells # rows)))"

text \<open>Lines 135 to 151: the table before the division.\<close>

definition backward_table :: "nd \<Rightarrow> int list \<Rightarrow> int list \<Rightarrow> error + real list list" where
  "backward_table logits extended_symbols skip_connect =
     (let S = length extended_symbols
      in andthen (nd_len logits) (\<lambda>T.
         andthen (nd_index logits (int T - 1)) (\<lambda>r.
         andthen (py_get extended_symbols (- 1)) (\<lambda>e1.
         andthen (cell_of logits (int T - 1) e1) (\<lambda>b1.
         andthen (py_get extended_symbols (- 2)) (\<lambda>e2.
         andthen (cell_of logits (int T - 1) e2) (\<lambda>b2.
         let last_row = (replicate S 0)[S - 1 := b1, S - 2 := b2]
         in andthen (backward_rows logits extended_symbols skip_connect last_row
                       (rev [0..<T - 1])) (\<lambda>rows.
            Inr (rev rows @ [last_row])))))))))"

text \<open>Line 155: \<^verbatim>\<open>beta[t][s] /= logits[t][extended_symbols[s]]\<close>.\<close>

definition divide_cell :: "nd \<Rightarrow> int list \<Rightarrow> real list list \<Rightarrow> nat \<Rightarrow> nat \<Rightarrow> error + real" where
  "divide_cell logits extended_symbols beta t s =
     andthen (nd_index logits (int t)) (\<lambda>row.
     andthen (nd_index row (extended_symbols ! s)) (\<lambda>p.
     as_float (nd_map (\<lambda>x. beta ! t ! s / x) p)))"

definition get_backward_probs :: "nd \<Rightarrow> int list \<Rightarrow> int list \<Rightarrow> error + real list list" where
  "get_backward_probs logits extended_symbols skip_connect =
     andthen (backward_table logits extended_symbols skip_connect) (\<lambda>beta.
     andthen (traverse (\<lambda>t. andthen
                  (traverse (divide_cell logits extended_symbols beta t)
                     (rev [0..<length extended_symbols]))
                  (\<lambda>cells. Inr (rev cells)))
                (rev [0..<length beta])) (\<lambda>rows.
     Inr (rev rows)))"

subsection \<open>\<^verbatim>\<open>get_posterior_probs\<close>\<close>

text \<open>
  A two-dimensional float array is the list of its rows; its shape is the number of rows
  and the length of the first row (an array without rows is read with no columns).
  NumPy aligns shapes from the right: \<^verbatim>\<open>alpha * beta\<close> stretches a dimension of size 1, and
  the in-place \<^verbatim>\<open>gamma /= sumgamma\<close> of a \<open>(T, S)\<close> table by a vector of length \<open>n\<close> needs
  the broadcast shape to be \<open>(T, S)\<close> again, that is \<open>n = S\<close> or \<open>n = 1\<close>; the element of
  column \<open>s\<close> is then divided by entry \<open>s\<close> of the vector (by its only entry when \<open>n = 1\<close>).
\<close>

definition shape2 :: "real list list \<Rightarrow> nat \<times> nat" where
  "shape2 a = (length a, (case a of [] \<Rightarrow> 0 | r # rs \<Rightarrow> length r))"

definition broadcast_dim :: "nat \<Rightarrow> nat \<Rightarrow> nat option" where
  "broadcast_dim m n =
     (if m = n then Some m else if m = 1 then Some n else if n = 1 then Some m else None)"

definition stretch :: "nat \<Rightarrow> 'a list \<Rightarrow> 'a list" where
  "stretch n xs = (if length xs = n then xs else replicate n (hd xs))"

definition multiply :: "real list list \<Rightarrow> real list list \<Rightarrow> error + real list list" where
  "multiply a b =
     (case (broadcast_dim (fst (shape2 a)) (fst (shape2 b)),
            broadcast_dim (snd (shape2 a)) (snd (shape2 b))) of
        (Some T, Some S) \<Rightarrow>
          Inr (map2 (\<lambda>ra rb. map2 (*) (stretch S ra) (stretch S rb)) (stretch T a) (stretch T b))
      | _ \<Rightarrow> Inl ValueError)"

definition divide_inplace :: "real list list \<Rightarrow> real list \<Rightarrow> error + real list list" where
  "divide_inplace gamma v =
     (if length v = snd (shape2 gamma) then Inr (map (\<lambda>row. map2 (/) row v) gamma)
      else if length v = 1 then Inr (map (map (\<lambda>x. x / hd v)) gamma)
      else Inl ValueError)"

definition get_posterior_probs :: "real list list \<Rightarrow> real list list \<Rightarrow> error + real list list" where
  "get_posterior_probs alpha beta =
     andthen (multiply alpha beta) (\<lambda>gamma.
     let sumgamma = map sum_list gamma
     in divide_inplace gamma sumgamma)"

section \<open>Class \<^verbatim>\<open>CTCLoss\<close>\<close>

text \<open>
  The object keeps the arrays it was called with (lines 247 to 250) and the extended
  sequences (line 270). \<^verbatim>\<open>forward\<close> and \<^verbatim>\<open>backward\<close> assign into \<^verbatim>\<open>logits\<close> and \<^verbatim>\<open>target\<close> in
  place, and \<^verbatim>\<open>self.logits\<close> is the very array the caller passed, so the arrays are threaded
  through the loops and stored back. \<^verbatim>\<open>self.ctc = CTC()\<close> is built with the default blank 0
  whatever \<^verbatim>\<open>BLANK\<close> the loss object was given.
\<close>

record ctc_loss =
  self_BLANK :: int
  self_logits :: "real list list list"
  self_target :: "int list list"
  self_input_lengths :: "int list"
  self_target_lengths :: "int list"
  self_extended_symbols :: "int list list"

text \<open>
  An assignment into a slice that keeps the whole first axis (\<^verbatim>\<open>target[b] = ...\<close>,
  \<^verbatim>\<open>logits[:, b, :] = ...\<close>): the slice keeps its length; a source of the same length is
  copied, a source of length 1 is repeated, and any other length raises
  \<^verbatim>\<open>ValueError: could not broadcast input array\<close>.
\<close>

definition assign_broadcast :: "'a list \<Rightarrow> 'a list \<Rightarrow> error + 'a list" where
  "assign_broadcast dest src =
     (if length src = length dest then Inr src
      else if length src = 1 then Inr (replicate (length dest) (hd src))
      else Inl ValueError)"

text \<open>Line 265 (and 336): \<^verbatim>\<open>target[b] = target[b, :target_lengths[b]]\<close>.\<close>

definition truncate_target :: "int list list \<Rightarrow> int list \<Rightarrow> nat \<Rightarrow> error + int list list" where
  "truncate_target target target_lengths b =
     andthen (py_get target_lengths (int b)) (\<lambda>n.
     andthen (assign_broadcast (target ! b) (slice_to n (target ! b))) (\<lambda>row.
     Inr (target[b := row])))"

text \<open>Line 267 (and 338): \<^verbatim>\<open>logits[:, b, :] = logits[:input_lengths[b], b, :]\<close>.\<close>

definition truncate_logits ::
  "real list list list \<Rightarrow> int list \<Rightarrow> nat \<Rightarrow> error + real list list list" where
  "truncate_logits logits input_lengths b =
     andthen (py_get input_lengths (int b)) (\<lambda>n.
     andthen (traverse (\<lambda>plane. py_get plane (int b)) logits) (\<lambda>column.
     andthen (assign_broadcast column (slice_to n column)) (\<lambda>rows.
     Inr (map2 (\<lambda>plane row. plane[b := row]) logits rows))))"

text \<open>
  Lines 265 to 269 (and 336 to 340): both truncations, then the extension of the row
  \<^verbatim>\<open>target[b]\<close> as it stands after the assignment.
\<close>

definition prepare_sample ::
  "real list list list \<Rightarrow> int list list \<Rightarrow> int list \<Rightarrow> int list \<Rightarrow> nat \<Rightarrow>
   error + (real list list list \<times> int list list \<times> int list \<times> int list)" where
  "prepare_sample logits target input_lengths target_lengths b =
     andthen (truncate_target target target_lengths b) (\<lambda>target'.
     andthen (truncate_logits logits input_lengths b) (\<lambda>logits'.
     andthen (extend_target_with_blank 0 (target' ! b)) (\<lambda>(ext_symbols, skip_connect).
     Inr (logits', target', ext_symbols, skip_connect))))"

text \<open>
  Lines 272 to 276 (and 343 to 347): the three methods are called with \<^verbatim>\<open>logits\<close>, the whole
  batch tensor.
\<close>

definition sample_posterior ::
  "real list list list \<Rightarrow> int list \<Rightarrow> int list \<Rightarrow> error + real list list" where
  "sample_posterior logits ext_symbols skip_connect =
     andthen (get_forward_probs (tensor logits) ext_symbols skip_connect) (\<lambda>alpha.
     andthen (get_backward_probs (tensor logits) ext_symbols skip_connect) (\<lambda>beta.
     get_posterior_probs alpha beta))"

text \<open>\<^verbatim>\<open>logits[t, b, k]\<close>.\<close>

definition index3 :: "real list list list \<Rightarrow> int \<Rightarrow> int \<Rightarrow> int \<Rightarrow> error + real" where
  "index3 logits t b k =
     andthen (py_get logits t) (\<lambda>plane.
     andthen (py_get plane b) (\<lambda>vec. py_get vec k))"

text \<open>
  Lines 278 to 280: the rows \<open>t\<close> in \<^verbatim>\<open>range(input_lengths[b])\<close> of the posterior are
  multiplied by the logarithms; line 281 then sums every row of the table.
\<close>

fun weigh_rows ::
  "real list list list \<Rightarrow> nat \<Rightarrow> int list \<Rightarrow> real list list \<Rightarrow> nat list \<Rightarrow>
   error + real list list" where
  "weigh_rows logits b ext_symbols posterior_prob [] = Inr posterior_prob"
| "weigh_rows logits b ext_symbols posterior_prob (t # ts) =
     (case py_get posterior_prob (int t) of
        Inl e \<Rightarrow> Inl e
      | Inr row \<Rightarrow>
          (case traverse (\<lambda>s. andthen (index3 logits (int t) (int b) (ext_symbols ! s))
                                (\<lambda>p. Inr (row ! s * ln p)))
                  [0..<length ext_symbols] of
             Inl e \<Rightarrow> Inl e
           | Inr row' \<Rightarrow> weigh_rows logits b ext_symbols (posterior_prob[t := row']) ts))"

definition sample_loss ::
  "real list list list \<Rightarrow> int list \<Rightarrow> nat \<Rightarrow> int list \<Rightarrow> real list list \<Rightarrow> error + real" where
  "sample_loss logits input_lengths b ext_symbols posterior_prob =
     andthen (py_get input_lengths (int b)) (\<lambda>n.
     andthen (weigh_rows logits b ext_symbols posterior_prob [0..<nat n]) (\<lambda>weighted.
     Inr (sum_list (map sum_list weighted) * - 1)))"

text \<open>
  The loop of lines 260 to 289 over the samples \<open>bs\<close>; it returns the arrays as the loop
  leaves them, the extended sequences appended and the entries of \<^verbatim>\<open>total_loss\<close>.
\<close>

fun forward_loop ::
  "real list list list \<Rightarrow> int list list \<Rightarrow> int list \<Rightarrow> int list \<Rightarrow> nat list \<Rightarrow>
   error + (real list list list \<times> int list list \<times> int list list \<times> real list)" where
  "forward_loop logits target input_lengths target_lengths [] = Inr (logits, target, [], [])"
| "forward_loop logits target input_lengths target_lengths (b # bs) =
     (case prepare_sample logits target input_lengths target_lengths b of
        Inl e \<Rightarrow> Inl e
      | Inr (logits', target', ext_symbols, skip_connect) \<Rightarrow>
          (case andthen (sample_posterior logits' ext_symbols skip_connect)
                  (sample_loss logits' input_lengths b ext_symbols) of
             Inl e \<Rightarrow> Inl e
           | Inr loss \<Rightarrow>
               (case forward_loop logits' target' input_lengths target_lengths bs of
                  Inl e \<Rightarrow> Inl e
                | Inr (logits'', target'', exts, losses) \<Rightarrow>
                    Inr (logits'', target'', ext_symbols # exts, loss # losses))))"

text \<open>
  \<^verbatim>\<open>forward\<close>: \<open>B\<close> is the number of rows of \<^verbatim>\<open>target\<close>, and line 291 divides the sum of
  \<^verbatim>\<open>total_loss\<close> by \<open>B\<close>.
\<close>

definition forward ::
  "ctc_loss \<Rightarrow> real list list list \<Rightarrow> int list list \<Rightarrow> int list \<Rightarrow> int list \<Rightarrow>
   error + (real \<times> ctc_loss)" where
  "forward self logits target input_lengths target_lengths =
     (let B = length target
      in andthen (forward_loop logits target input_lengths target_lengths [0..<B])
           (\<lambda>(logits', target', exts, total_loss).
              Inr (sum_list total_loss / real B,
                   self\<lparr>self_logits := logits', self_target := target',
                        self_input_lengths := input_lengths,
                        self_target_lengths := target_lengths,
                        self_extended_symbols := exts\<rparr>)))"

text \<open>
  Lines 357 and 358 for one time step: \<open>acc\<close> is the row \<^verbatim>\<open>dY[t, b, :]\<close>, and every position
  \<open>s\<close> subtracts from the entry of its symbol.
\<close>

fun grad_cells ::
  "real list list list \<Rightarrow> nat \<Rightarrow> int list \<Rightarrow> real list list \<Rightarrow> nat \<Rightarrow> real list \<Rightarrow> nat list \<Rightarrow>
   error + real list" where
  "grad_cells logits b ext_symbols posterior_prob t acc [] = Inr acc"
| "grad_cells logits b ext_symbols posterior_prob t acc (s # ss) =
     (case py_get acc (ext_symbols ! s) of
        Inl e \<Rightarrow> Inl e
      | Inr old \<Rightarrow>
          (case andthen (py_get posterior_prob (int t)) (\<lambda>row.
                andthen (index3 logits (int t) (int b) (ext_symbols ! s)) (\<lambda>p.
                Inr (old - row ! s / p))) of
             Inl e \<Rightarrow> Inl e
           | Inr new \<Rightarrow>
               grad_cells logits b ext_symbols posterior_prob t
                 (acc[(if ext_symbols ! s < 0 then nat (int (length acc) + ext_symbols ! s)
                       else nat (ext_symbols ! s)) := new]) ss))"

text \<open>Lines 355 to 358: every \<open>t\<close> in \<^verbatim>\<open>range(T)\<close> clears its row and fills it.\<close>

fun grad_rows ::
  "real list list list \<Rightarrow> nat \<Rightarrow> int list \<Rightarrow> real list list \<Rightarrow> nat \<Rightarrow> real list list list \<Rightarrow>
   nat list \<Rightarrow> error + real list list list" where
  "grad_rows logits b ext_symbols posterior_prob C dY [] = Inr dY"
| "grad_rows logits b ext_symbols posterior_prob C dY (t # ts) =
     (case grad_cells logits b ext_symbols posterior_prob t (replicate C 0)
             [0..<length ext_symbols] of
        Inl e \<Rightarrow> Inl e
      | Inr row \<Rightarrow>
          grad_rows logits b ext_symbols posterior_prob C (dY[t := (dY ! t)[b := row]]) ts)"

definition shape3 :: "real list list list \<Rightarrow> nat \<times> nat \<times> nat" where
  "shape3 x =
     (length x,
      (case x of [] \<Rightarrow> 0 | p # ps \<Rightarrow> length p),
      (case x of [] \<Rightarrow> 0 | p # ps \<Rightarrow> (case p of [] \<Rightarrow> 0 | v # vs \<Rightarrow> length v)))"

fun backward_loop ::
  "real list list list \<Rightarrow> int list list \<Rightarrow> int list \<Rightarrow> int list \<Rightarrow> real list list list \<Rightarrow>
   nat list \<Rightarrow> error + (real list list list \<times> real list list list \<times> int list list)" where
  "backward_loop logits target input_lengths target_lengths dY [] = Inr (dY, logits, target)"
| "backward_loop logits target input_lengths target_lengths dY (b # bs) =
     (case prepare_sample logits target input_lengths target_lengths b of
        Inl e \<Rightarrow> Inl e
      | Inr (logits', target', ext_symbols, skip_connect) \<Rightarrow>
          (case andthen (sample_posterior logits' ext_symbols skip_connect) (\<lambda>posterior_prob.
                grad_rows logits' b ext_symbols posterior_prob (snd (snd (shape3 logits))) dY
                  [0..<fst (shape3 logits)]) of
             Inl e \<Rightarrow> Inl e
           | Inr dY' \<Rightarrow> backward_loop logits' target' input_lengths target_lengths dY' bs))"

text \<open>
  \<^verbatim>\<open>backward\<close>: \<open>T, B, C\<close> are the shape of \<^verbatim>\<open>self.logits\<close>, \<^verbatim>\<open>dY\<close> starts as zeros of that
  shape, and the loop runs over \<^verbatim>\<open>range(B)\<close>.
\<close>

definition backward :: "ctc_loss \<Rightarrow> error + (real list list list \<times> ctc_loss)" where
  "backward self =
     (let logits = self_logits self;
          dY = map (map (map (\<lambda>x. 0))) logits
      in andthen (backward_loop logits (self_target self) (self_input_lengths self)
                    (self_target_lengths self) dY [0..<fst (snd (shape3 logits))])
           (\<lambda>(dY', logits', target').
              Inr (dY', self\<lparr>self_logits := logits', self_target := target'\<rparr>)))"

section \<open>Notions used to state the properties\<close>

text \<open>
  \<open>P(t, k)\<close> of the documentation: the entry of a two-dimensional emission matrix at time \<open>t\<close>
  for a symbol \<open>k\<close> of the vocabulary (\<open>0 \<le> k < C\<close>).
\<close>

definition emission :: "real list list \<Rightarrow> nat \<Rightarrow> int \<Rightarrow> real" where
  "emission m t k = m ! t ! nat k"

text \<open>
  The recurrences as the documentation states them: the value of \<open>alpha[t][s]\<close> from the row
  of \<open>t - 1\<close>, and the value of \<open>beta[t][s]\<close> (before the division) from the row of
  \<open>t + 1\<close>. The lemmas below compare what the loop bodies store with them.
\<close>

definition forward_recurrence ::
  "real list list \<Rightarrow> int list \<Rightarrow> int list \<Rightarrow> real list \<Rightarrow> nat \<Rightarrow> nat \<Rightarrow> real" where
  "forward_recurrence m ext skip prev t s =
     (prev ! s + (if 1 \<le> s then prev ! (s - 1) else 0) +
      (if skip ! s \<noteq> 0 \<and> 2 \<le> s then prev ! (s - 2) else 0)) * emission m t (ext ! s)"

definition backward_recurrence ::
  "real list list \<Rightarrow> int list \<Rightarrow> int list \<Rightarrow> real list \<Rightarrow> nat \<Rightarrow> nat \<Rightarrow> real" where
  "backward_recurrence m ext skip nxt t s =
     (nxt ! s + (if s + 1 < length ext then nxt ! (s + 1) else 0) +
      (if skip ! s \<noteq> 0 \<and> s + 2 < length ext then nxt ! (s + 2) else 0)) * emission m t (ext ! s)"

section \<open>\<^verbatim>\<open>extend_target_with_blank\<close>: the extended sequence and the skip flags\<close>

lemma length_fold_extend:
  "length (fold (\<lambda>symbol acc. acc @ [symbol, b]) target acc0) = length acc0 + 2 * length target"
  by (induction target arbitrary: acc0) simp_all

lemma length_extended_symbols_of:
  "length (extended_symbols_of BLANK target) = 2 * length target + 1"
  by (simp add: extended_symbols_of_def length_fold_extend)

lemma length_skip_connect_of: "length (skip_connect_of ext) = length ext"
  by (simp add: skip_connect_of_def Let_def)

text \<open>The flag the loop of lines 52 to 56 stores at \<open>i\<close> compares \<open>i\<close> with \<open>i + 2\<close>.\<close>

lemma skip_connect_looks_ahead:
  "i < length ext \<Longrightarrow>
   skip_connect_of ext ! i = (if i + 2 < length ext \<and> ext ! i \<noteq> ext ! (i + 2) then 1 else 0)"
  by (simp add: skip_connect_of_def Let_def)

text \<open>
  C2. The claim: the flag at \<open>s\<close> is 0 for \<open>s < 2\<close> and, for \<open>s \<ge> 2\<close>, 1 exactly when
  \<open>extended[s] \<noteq> extended[s - 2]\<close>. The docstring of the method gives the same flags for its
  example \<^verbatim>\<open>[B, IY, IY, F]\<close>: \<^verbatim>\<open>[0,0,0,1,0,0,0,1,0]\<close>. On that example (\<open>B = 1\<close>, \<open>IY = 2\<close>,
  \<open>F = 3\<close>) the code returns \<^verbatim>\<open>[0,1,0,0,0,1,0,0,0]\<close>: the flag at 1 is set, the flags at 3 and 7
  are not.
\<close>

theorem extend_target_docstring_example:
  "extend_target_with_blank 0 [1, 2, 2, 3] =
     Inr ([0, 1, 0, 2, 0, 2, 0, 3, 0], [0, 1, 0, 0, 0, 1, 0, 0, 0])"
  by (simp add: extend_target_with_blank_def extended_symbols_of_def skip_connect_of_def upt_rec
      Let_def)

text \<open>
  C5, as stated, fails: the claim has the method raise on an empty target; the method
  returns the one-blank sequence.
\<close>

theorem extend_target_empty_returns: "extend_target_with_blank 0 [] = Inr ([0], [0])"
  by (simp add: extend_target_with_blank_def extended_symbols_of_def skip_connect_of_def Let_def)

text \<open>
  C5, amended: \<^verbatim>\<open>extend_target_with_blank\<close> validates nothing and never raises. For every blank
  and every target, the empty one and any integer labels included, it returns an extended
  sequence of length \<open>2L + 1\<close> and a skip mask of the same length.
\<close>

theorem extend_target_always_returns:
  "\<exists>ext skip. extend_target_with_blank BLANK target = Inr (ext, skip) \<and>
     length ext = 2 * length target + 1 \<and> length skip = 2 * length target + 1"
  by (simp add: extend_target_with_blank_def Let_def length_extended_symbols_of
      length_skip_connect_of)

section \<open>\<^verbatim>\<open>get_posterior_probs\<close>: shapes and normalisation\<close>

lemma shape2_rect:
  "length a = T \<Longrightarrow> \<forall>row\<in>set a. length row = S \<Longrightarrow> 0 < T \<Longrightarrow> shape2 a = (T, S)"
  by (cases a) (auto simp: shape2_def)

lemma zip_members: "p \<in> set (zip a b) \<Longrightarrow> fst p \<in> set a \<and> snd p \<in> set b"
  by (cases p) (simp, meson set_zip_leftD set_zip_rightD)

lemma multiply_same_shape:
  assumes "length a = T" "length b = T" "\<forall>row\<in>set a. length row = S"
    "\<forall>row\<in>set b. length row = S" "0 < T"
  shows "multiply a b = Inr (map2 (map2 (*)) a b)"
proof -
  have sa: "shape2 a = (T, S)" and sb: "shape2 b = (T, S)"
    using assms by (simp_all add: shape2_rect)
  have "map2 (\<lambda>ra rb. map2 (*) (stretch S ra) (stretch S rb)) a b = map2 (map2 (*)) a b"
  proof (rule map_cong [OF refl])
    fix p assume "p \<in> set (zip a b)"
    then have "fst p \<in> set a" "snd p \<in> set b"
      by (simp_all add: zip_members)
    then have "length (fst p) = S" "length (snd p) = S"
      using assms(3,4) by simp_all
    then show "(case p of (ra, rb) \<Rightarrow> map2 (*) (stretch S ra) (stretch S rb)) =
               (case p of (ra, rb) \<Rightarrow> map2 (*) ra rb)"
      by (simp add: stretch_def split_beta)
  qed
  then show ?thesis
    using assms(1,2) by (simp add: multiply_def sa sb broadcast_dim_def stretch_def)
qed

lemma shape2_product:
  assumes "length a = T" "length b = T" "\<forall>row\<in>set a. length row = S"
    "\<forall>row\<in>set b. length row = S" "0 < T"
  shows "shape2 (map2 (map2 (*)) a b) = (T, S)"
proof (rule shape2_rect)
  show "length (map2 (map2 (*)) a b) = T" using assms by simp
  show "\<forall>row\<in>set (map2 (map2 (*)) a b). length row = S"
    using assms(3,4) by (auto dest!: zip_members)
  show "0 < T" by fact
qed

text \<open>
  C1. The claim: every row of the posterior is divided by its own sum and sums to 1. The
  code forms the row sums (\<^verbatim>\<open>np.sum(gamma, axis=1)\<close>) and divides the table by that vector,
  which NumPy aligns with the columns: on a square table the entry of column \<open>s\<close> is divided
  by the sum of row \<open>s\<close>. Here the row sums are 2 and 4, and the first row of the result sums
  to \<open>3/4\<close>.
\<close>

theorem posterior_divides_by_wrong_row_sum:
  "get_posterior_probs [[1, 1], [1, 3]] [[1, 1], [1, 1]] = Inr [[1 / 2, 1 / 4], [1 / 2, 3 / 4]]"
  by (simp add: get_posterior_probs_def multiply_def shape2_def broadcast_dim_def stretch_def
      divide_inplace_def andthen_def)

text \<open>
  C10. For tables of one shape \<open>(T, S)\<close> with \<open>T > 1\<close>, \<open>S > 1\<close> and \<open>T \<noteq> S\<close> the division of
  the \<open>(T, S)\<close> product by the \<open>(T,)\<close> vector of row sums raises the broadcasting error, so no
  posterior is returned.
\<close>

theorem posterior_shape_error:
  assumes "length alpha = T" "length beta = T"
    and "\<forall>row\<in>set alpha. length row = S" "\<forall>row\<in>set beta. length row = S"
    and "1 < T" "1 < S" "T \<noteq> S"
  shows "get_posterior_probs alpha beta = Inl ValueError"
proof -
  have T: "0 < T" using assms(5) by simp
  have m: "multiply alpha beta = Inr (map2 (map2 (*)) alpha beta)"
    using assms(1-4) T by (rule multiply_same_shape)
  have s: "shape2 (map2 (map2 (*)) alpha beta) = (T, S)"
    using assms(1-4) T by (rule shape2_product)
  show ?thesis
    using assms(1,2,5,7) by (simp add: get_posterior_probs_def m andthen_def divide_inplace_def s)
qed

theorem posterior_shape_error_witness:
  "get_posterior_probs [[1, 1, 1], [1, 1, 1]] [[1, 2, 3], [4, 5, 6]] = Inl ValueError"
  using posterior_shape_error [of "[[1, 1, 1], [1, 1, 1]]" 2 "[[1, 2, 3], [4, 5, 6]]" 3]
  by simp

text \<open>
  The call returns exactly for square tables and for tables of one row; a table of one column
  and several rows raises as well.
\<close>

lemma posterior_returns_iff:
  assumes "length alpha = T" "length beta = T"
    and "\<forall>row\<in>set alpha. length row = S" "\<forall>row\<in>set beta. length row = S"
    and "0 < T"
  shows "(\<exists>gamma. get_posterior_probs alpha beta = Inr gamma) \<longleftrightarrow> T = S \<or> T = 1"
proof -
  have m: "multiply alpha beta = Inr (map2 (map2 (*)) alpha beta)"
    using assms by (rule multiply_same_shape)
  have s: "shape2 (map2 (map2 (*)) alpha beta) = (T, S)"
    using assms by (rule shape2_product)
  show ?thesis
    using assms(1,2)
    by (auto simp add: get_posterior_probs_def m andthen_def divide_inplace_def s Let_def)
qed

section \<open>The forward and backward tables on an emission matrix\<close>

lemma py_get_nat: "i < length xs \<Longrightarrow> py_get xs (int i) = Inr (xs ! i)"
  by (simp add: py_get_def)

lemma py_get_in_range: "0 \<le> k \<Longrightarrow> k < int (length xs) \<Longrightarrow> py_get xs k = Inr (xs ! nat k)"
  by (simp add: py_get_def)

lemma py_get_last: "xs \<noteq> [] \<Longrightarrow> py_get xs (- 1) = Inr (xs ! (length xs - 1))"
  by (cases xs) (simp_all add: py_get_def nat_add_distrib)

lemma py_get_last_but_one: "1 < length xs \<Longrightarrow> py_get xs (- 2) = Inr (xs ! (length xs - 2))"
proof -
  assume "1 < length xs"
  then have "nat (int (length xs) + - 2) = length xs - 2" by linarith
  with \<open>1 < length xs\<close> show ?thesis by (simp add: py_get_def)
qed

lemma traverse_map: "(\<And>x. x \<in> set xs \<Longrightarrow> f x = Inr (g x)) \<Longrightarrow> traverse f xs = Inr (map g xs)"
  by (induction xs) simp_all

lemma traverse_rev_upt:
  assumes "\<And>i. i < n \<Longrightarrow> f i = Inr (g i)"
  shows "andthen (traverse f (rev [0..<n])) (\<lambda>ys. Inr (rev ys)) = Inr (map g [0..<n])"
proof -
  have "traverse f (rev [0..<n]) = Inr (map g (rev [0..<n]))"
    by (rule traverse_map) (simp add: assms)
  then show ?thesis by (simp add: andthen_def rev_map)
qed

lemma matrix_row:
  "t < length m \<Longrightarrow> nd_index (matrix m) (int t) = Inr (Arr (map Num (m ! t)))"
  by (simp add: nd_index_def matrix_def py_get_nat)

lemma matrix_entry:
  assumes "t < length m" "0 \<le> k" "k < int (length (m ! t))"
  shows "andthen (nd_index (matrix m) (int t)) (\<lambda>row. andthen (nd_index row k) (\<lambda>p.
           as_float (nd_map f p))) = Inr (f (emission m t k))"
proof -
  have r: "nd_index (matrix m) (int t) = Inr (Arr (map Num (m ! t)))"
    using assms(1) by (rule matrix_row)
  have e: "nd_index (Arr (map Num (m ! t))) k = Inr (Num (m ! t ! nat k))"
    using assms(2,3) by (simp add: nd_index_def py_get_in_range)
  show ?thesis
    by (simp add: r e andthen_def emission_def)
qed

lemma cell_of_matrix:
  assumes "t < length m" "0 \<le> k" "k < int (length (m ! t))"
  shows "cell_of (matrix m) (int t) k = Inr (emission m t k)"
proof -
  have r: "nd_index (matrix m) (int t) = Inr (Arr (map Num (m ! t)))"
    using assms(1) by (rule matrix_row)
  have e: "nd_index (Arr (map Num (m ! t))) k = Inr (Num (m ! t ! nat k))"
    using assms(2,3) by (simp add: nd_index_def py_get_in_range)
  show ?thesis
    by (simp add: cell_of_def r e andthen_def emission_def)
qed

lemma forward_cell_matrix:
  assumes "t < length m" "\<forall>row\<in>set m. length row = C" "s < length ext"
    "length skip = length ext" "\<forall>k\<in>set ext. 0 \<le> k \<and> k < int C"
  shows "forward_cell (matrix m) ext skip prev t s = Inr (forward_recurrence m ext skip prev t s)"
proof -
  have k: "0 \<le> ext ! s" "ext ! s < int (length (m ! t))"
    using assms by simp_all
  have sk: "py_get skip (int s) = Inr (skip ! s)"
    using assms by (simp add: py_get_nat)
  show ?thesis
    unfolding forward_cell_def Let_def sk
    by (simp add: andthen_def [of "Inr (skip ! s)"] matrix_entry [OF assms(1) k]
        forward_recurrence_def)
qed

lemma backward_cell_matrix:
  assumes "t < length m" "\<forall>row\<in>set m. length row = C" "s < length ext"
    "length skip = length ext" "\<forall>k\<in>set ext. 0 \<le> k \<and> k < int C"
  shows "backward_cell (matrix m) ext skip nxt t s = Inr (backward_recurrence m ext skip nxt t s)"
proof -
  have k: "0 \<le> ext ! s" "ext ! s < int (length (m ! t))"
    using assms by simp_all
  have sk: "py_get skip (int s) = Inr (skip ! s)"
    using assms by (simp add: py_get_nat)
  show ?thesis
    unfolding backward_cell_def Let_def sk
    by (simp add: andthen_def [of "Inr (skip ! s)"] matrix_entry [OF assms(1) k]
        backward_recurrence_def)
qed

lemma divide_cell_matrix:
  assumes "t < length m" "\<forall>row\<in>set m. length row = C" "s < length ext"
    "\<forall>k\<in>set ext. 0 \<le> k \<and> k < int C"
  shows "divide_cell (matrix m) ext b t s = Inr (b ! t ! s / emission m t (ext ! s))"
proof -
  have k: "0 \<le> ext ! s" "ext ! s < int (length (m ! t))"
    using assms by simp_all
  show ?thesis
    unfolding divide_cell_def by (simp add: matrix_entry [OF assms(1) k])
qed

lemma forward_rows_matrix:
  assumes "\<forall>t\<in>set ts. t < length m" "\<forall>row\<in>set m. length row = C"
    "length skip = length ext" "\<forall>k\<in>set ext. 0 \<le> k \<and> k < int C"
  shows "\<exists>rows. forward_rows (matrix m) ext skip prev ts = Inr rows \<and> length rows = length ts \<and>
           (\<forall>i<length ts. rows ! i =
              map (forward_recurrence m ext skip ((prev # rows) ! i) (ts ! i)) [0..<length ext])"
  using assms(1)
proof (induction ts arbitrary: prev)
  case Nil
  then show ?case by simp
next
  case (Cons t ts)
  let ?row = "map (forward_recurrence m ext skip prev t) [0..<length ext]"
  have t: "t < length m" using Cons.prems by simp
  have row: "traverse (forward_cell (matrix m) ext skip prev t) [0..<length ext] = Inr ?row"
  proof (rule traverse_map)
    fix s assume "s \<in> set [0..<length ext]"
    then have "s < length ext" by simp
    then show "forward_cell (matrix m) ext skip prev t s =
        Inr (forward_recurrence m ext skip prev t s)"
      using t assms(2-4) by (intro forward_cell_matrix)
  qed
  from Cons.prems have "\<forall>t\<in>set ts. t < length m" by simp
  from Cons.IH [OF this, of ?row] obtain rows where
    rows: "forward_rows (matrix m) ext skip ?row ts = Inr rows" "length rows = length ts"
      "\<forall>i<length ts. rows ! i =
         map (forward_recurrence m ext skip ((?row # rows) ! i) (ts ! i)) [0..<length ext]"
    by blast
  have "forward_rows (matrix m) ext skip prev (t # ts) = Inr (?row # rows)"
    by (simp add: row rows(1))
  moreover have "length (?row # rows) = length (t # ts)"
    by (simp add: rows(2))
  moreover have "\<forall>i<length (t # ts). (?row # rows) ! i =
      map (forward_recurrence m ext skip ((prev # ?row # rows) ! i) ((t # ts) ! i)) [0..<length ext]"
  proof (intro allI impI)
    fix i assume "i < length (t # ts)"
    then show "(?row # rows) ! i =
      map (forward_recurrence m ext skip ((prev # ?row # rows) ! i) ((t # ts) ! i)) [0..<length ext]"
      using rows(3) by (cases i) simp_all
  qed
  ultimately show ?case by blast
qed

lemma backward_rows_matrix:
  assumes "\<forall>t\<in>set ts. t < length m" "\<forall>row\<in>set m. length row = C"
    "length skip = length ext" "\<forall>k\<in>set ext. 0 \<le> k \<and> k < int C"
  shows "\<exists>rows. backward_rows (matrix m) ext skip nxt ts = Inr rows \<and> length rows = length ts \<and>
           (\<forall>i<length ts. rows ! i =
              map (backward_recurrence m ext skip ((nxt # rows) ! i) (ts ! i)) [0..<length ext])"
  using assms(1)
proof (induction ts arbitrary: nxt)
  case Nil
  then show ?case by simp
next
  case (Cons t ts)
  let ?row = "map (backward_recurrence m ext skip nxt t) [0..<length ext]"
  have t: "t < length m" using Cons.prems by simp
  have "traverse (backward_cell (matrix m) ext skip nxt t) (rev [0..<length ext]) =
          Inr (map (backward_recurrence m ext skip nxt t) (rev [0..<length ext]))"
  proof (rule traverse_map)
    fix s assume "s \<in> set (rev [0..<length ext])"
    then have "s < length ext" by simp
    then show "backward_cell (matrix m) ext skip nxt t s =
        Inr (backward_recurrence m ext skip nxt t s)"
      using t assms(2-4) by (intro backward_cell_matrix)
  qed
  then have row: "traverse (backward_cell (matrix m) ext skip nxt t) (rev [0..<length ext]) =
          Inr (rev ?row)"
    by (simp add: rev_map)
  from Cons.prems have "\<forall>t\<in>set ts. t < length m" by simp
  from Cons.IH [OF this, of ?row] obtain rows where
    rows: "backward_rows (matrix m) ext skip ?row ts = Inr rows" "length rows = length ts"
      "\<forall>i<length ts. rows ! i =
         map (backward_recurrence m ext skip ((?row # rows) ! i) (ts ! i)) [0..<length ext]"
    by blast
  have "backward_rows (matrix m) ext skip nxt (t # ts) = Inr (?row # rows)"
    by (simp add: row rows(1))
  moreover have "length (?row # rows) = length (t # ts)"
    by (simp add: rows(2))
  moreover have "\<forall>i<length (t # ts). (?row # rows) ! i =
      map (backward_recurrence m ext skip ((nxt # ?row # rows) ! i) ((t # ts) ! i)) [0..<length ext]"
  proof (intro allI impI)
    fix i assume "i < length (t # ts)"
    then show "(?row # rows) ! i =
      map (backward_recurrence m ext skip ((nxt # ?row # rows) ! i) ((t # ts) ! i)) [0..<length ext]"
      using rows(3) by (cases i) simp_all
  qed
  ultimately show ?case by blast
qed

lemma nd_len_matrix: "nd_len (matrix m) = Inr (length m)"
  by (simp add: nd_len_def matrix_def)

text \<open>
  C8. For an emission matrix with \<open>T \<ge> 1\<close> rows of \<open>C\<close> entries, an extended sequence of
  length \<open>S > 1\<close> whose symbols lie in the vocabulary and a skip mask of length \<open>S\<close>,
  \<^verbatim>\<open>get_forward_probs\<close> returns a \<open>T \<times> S\<close> table \<open>alpha\<close> with
  \<open>alpha[0][0] = P(0, ext[0])\<close>, \<open>alpha[0][1] = P(0, ext[1])\<close>, zeros in the rest of row 0, and
  for \<open>1 \<le> t < T\<close>, \<open>s < S\<close>:
  \<open>alpha[t][s] = (alpha[t-1][s] + (alpha[t-1][s-1] if s \<ge> 1) + (alpha[t-1][s-2] if the mask is
  set at s and s \<ge> 2)) * P(t, ext[s])\<close>.
\<close>

theorem forward_probs_recurrence:
  assumes "m \<noteq> []" "\<forall>row\<in>set m. length row = C"
    and "1 < length ext" "\<forall>k\<in>set ext. 0 \<le> k \<and> k < int C"
    and "length skip = length ext"
  shows "\<exists>alpha. get_forward_probs (matrix m) ext skip = Inr alpha \<and>
     length alpha = length m \<and> (\<forall>row\<in>set alpha. length row = length ext) \<and>
     alpha ! 0 ! 0 = emission m 0 (ext ! 0) \<and>
     alpha ! 0 ! 1 = emission m 0 (ext ! 1) \<and>
     (\<forall>s. 2 \<le> s \<and> s < length ext \<longrightarrow> alpha ! 0 ! s = 0) \<and>
     (\<forall>t s. 1 \<le> t \<and> t < length m \<and> s < length ext \<longrightarrow>
        alpha ! t ! s =
          (alpha ! (t - 1) ! s +
           (if 1 \<le> s then alpha ! (t - 1) ! (s - 1) else 0) +
           (if skip ! s \<noteq> 0 \<and> 2 \<le> s then alpha ! (t - 1) ! (s - 2) else 0)) *
          emission m t (ext ! s))"
proof -
  let ?S = "length ext" and ?T = "length m"
  have T: "0 < ?T" using assms(1) by simp
  have m0: "length (m ! 0) = C"
    using assms(2) T by simp
  have l: "0 < length ext" "1 < length ext"
    using assms(3) by auto
  have "ext ! 0 \<in> set ext" "ext ! 1 \<in> set ext"
    using nth_mem [OF l(1)] nth_mem [OF l(2)] by blast+
  then have sym0: "0 \<le> ext ! 0" "ext ! 0 < int (length (m ! 0))"
    and sym1: "0 \<le> ext ! 1" "ext ! 1 < int (length (m ! 0))"
    using assms(4) m0 by blast+
  have e0: "py_get ext 0 = Inr (ext ! 0)" and e1: "py_get ext 1 = Inr (ext ! 1)"
    using assms(3) by (auto simp add: py_get_def)
  have r0: "nd_index (matrix m) 0 = Inr (Arr (map Num (m ! 0)))"
    using matrix_row [OF T] by simp
  have c0: "cell_of (matrix m) 0 (ext ! 0) = Inr (emission m 0 (ext ! 0))"
    using cell_of_matrix [OF T sym0] by simp
  have c1: "cell_of (matrix m) 0 (ext ! 1) = Inr (emission m 0 (ext ! 1))"
    using cell_of_matrix [OF T sym1] by simp
  define alpha0 where
    "alpha0 = (replicate ?S (0::real))[0 := emission m 0 (ext ! 0), 1 := emission m 0 (ext ! 1)]"
  have ts: "\<forall>t\<in>set [1..<?T]. t < ?T" by simp
  from forward_rows_matrix [OF ts assms(2) assms(5) assms(4), of alpha0] obtain rows where
    rows: "forward_rows (matrix m) ext skip alpha0 [1..<?T] = Inr rows"
      "length rows = length [1..<?T]"
      "\<forall>i<length [1..<?T]. rows ! i =
         map (forward_recurrence m ext skip ((alpha0 # rows) ! i) ([1..<?T] ! i)) [0..<?S]"
    by blast
  let ?alpha = "alpha0 # rows"
  have res: "get_forward_probs (matrix m) ext skip = Inr ?alpha"
    unfolding get_forward_probs_def Let_def
    by (simp only: nd_len_matrix r0 e0 e1 c0 c1 andthen_def sum.case alpha0_def [symmetric]
        rows(1))
  have len: "length ?alpha = ?T"
    using rows(2) T by simp
  have step: "?alpha ! t = map (forward_recurrence m ext skip (?alpha ! (t - 1)) t) [0..<?S]"
    if "1 \<le> t" "t < ?T" for t
  proof -
    from that obtain i where i: "t = Suc i" "i < length [1..<?T]"
      by (cases t) simp_all
    then have "[1..<?T] ! i = t" by simp
    with rows(3) i show ?thesis by simp
  qed
  have width: "\<forall>row\<in>set ?alpha. length row = ?S"
  proof
    fix row assume "row \<in> set ?alpha"
    then obtain t where t: "t < length ?alpha" "row = ?alpha ! t"
      by (metis in_set_conv_nth)
    show "length row = ?S"
    proof (cases t)
      case 0
      with t show ?thesis by (simp add: alpha0_def)
    next
      case (Suc i)
      with t len step [of t] show ?thesis by simp
    qed
  qed
  have base0: "?alpha ! 0 ! 0 = emission m 0 (ext ! 0)"
    using l by (simp add: alpha0_def nth_list_update)
  have base1: "?alpha ! 0 ! 1 = emission m 0 (ext ! 1)"
    using l by (simp add: alpha0_def nth_list_update)
  have zeros: "\<forall>s. 2 \<le> s \<and> s < ?S \<longrightarrow> ?alpha ! 0 ! s = 0"
    by (simp add: alpha0_def)
  have rec: "\<forall>t s. 1 \<le> t \<and> t < ?T \<and> s < ?S \<longrightarrow>
        ?alpha ! t ! s =
          (?alpha ! (t - 1) ! s +
           (if 1 \<le> s then ?alpha ! (t - 1) ! (s - 1) else 0) +
           (if skip ! s \<noteq> 0 \<and> 2 \<le> s then ?alpha ! (t - 1) ! (s - 2) else 0)) *
          emission m t (ext ! s)"
  proof (intro allI impI)
    fix t s assume a: "1 \<le> t \<and> t < ?T \<and> s < ?S"
    then have "?alpha ! t ! s = forward_recurrence m ext skip (?alpha ! (t - 1)) t s"
      using step [of t] by simp
    then show "?alpha ! t ! s =
          (?alpha ! (t - 1) ! s +
           (if 1 \<le> s then ?alpha ! (t - 1) ! (s - 1) else 0) +
           (if skip ! s \<noteq> 0 \<and> 2 \<le> s then ?alpha ! (t - 1) ! (s - 2) else 0)) *
          emission m t (ext ! s)"
      by (simp only: forward_recurrence_def)
  qed
  from res len width base0 base1 zeros rec show ?thesis by blast
qed

theorem forward_probs_recurrence_witness:
  "\<exists>alpha. get_forward_probs (matrix [[3 / 10, 7 / 10], [2 / 5, 3 / 5]]) [0, 1, 0] [0, 1, 1] =
      Inr alpha \<and>
     alpha ! 0 ! 0 = 3 / 10 \<and> alpha ! 0 ! 1 = 7 / 10 \<and> alpha ! 0 ! 2 = 0 \<and>
     alpha ! 1 ! 2 = (alpha ! 0 ! 2 + alpha ! 0 ! 1 + alpha ! 0 ! 0) * (2 / 5)"
proof -
  from forward_probs_recurrence
    [of "[[3 / 10, 7 / 10], [2 / 5, 3 / 5]]" 2 "[0, 1, 0]" "[0, 1, 1]"]
  obtain alpha where
    a: "get_forward_probs (matrix [[3 / 10, 7 / 10], [2 / 5, 3 / 5]]) [0, 1, 0] [0, 1, 1] =
          Inr alpha"
      "alpha ! 0 ! 0 = emission [[3 / 10, 7 / 10], [2 / 5, 3 / 5]] 0 ([0, 1, 0] ! 0)"
      "alpha ! 0 ! 1 = emission [[3 / 10, 7 / 10], [2 / 5, 3 / 5]] 0 ([0, 1, 0] ! 1)"
      "\<forall>s. 2 \<le> s \<and> s < length [0, 1, 0 :: int] \<longrightarrow> alpha ! 0 ! s = 0"
      "\<forall>t s. 1 \<le> t \<and> t < length [[3 / 10, 7 / 10], [2 / 5, 3 / 5 :: real]] \<and>
          s < length [0, 1, 0 :: int] \<longrightarrow>
        alpha ! t ! s =
          (alpha ! (t - 1) ! s +
           (if 1 \<le> s then alpha ! (t - 1) ! (s - 1) else 0) +
           (if [0, 1, 1 :: int] ! s \<noteq> 0 \<and> 2 \<le> s then alpha ! (t - 1) ! (s - 2) else 0)) *
          emission [[3 / 10, 7 / 10], [2 / 5, 3 / 5]] t ([0, 1, 0] ! s)"
    by auto
  from a(4) have z: "alpha ! 0 ! 2 = 0" by simp
  from a(5) have "alpha ! 1 ! 2 =
          (alpha ! (1 - 1) ! 2 +
           (if 1 \<le> (2::nat) then alpha ! (1 - 1) ! (2 - 1) else 0) +
           (if [0, 1, 1 :: int] ! 2 \<noteq> 0 \<and> 2 \<le> (2::nat) then alpha ! (1 - 1) ! (2 - 2) else 0)) *
          emission [[3 / 10, 7 / 10], [2 / 5, 3 / 5]] 1 ([0, 1, 0] ! 2)"
    by (elim allE [of _ 1] allE [of _ 2]) simp
  then have r: "alpha ! 1 ! 2 = (alpha ! 0 ! 2 + alpha ! 0 ! 1 + alpha ! 0 ! 0) * (2 / 5)"
    by (simp add: emission_def)
  from a(1-3) z r show ?thesis by (simp add: emission_def)
qed

text \<open>
  C9. Under the same conditions and for positive emissions, \<^verbatim>\<open>get_backward_probs\<close> works in two
  phases. The table \<open>b\<close> of the first phase has \<open>b[T-1][S-1] = P(T-1, ext[S-1])\<close>,
  \<open>b[T-1][S-2] = P(T-1, ext[S-2])\<close>, zeros in the rest of the last row, and for \<open>t < T - 1\<close>:
  \<open>b[t][s] = (b[t+1][s] + (b[t+1][s+1] if s+1 < S) + (b[t+1][s+2] if the mask is set at s and
  s+2 < S)) * P(t, ext[s])\<close>. The result divides every entry once:
  \<open>beta[t][s] = b[t][s] / P(t, ext[s])\<close>.
\<close>

theorem backward_probs_two_phases:
  assumes "m \<noteq> []" "\<forall>row\<in>set m. length row = C \<and> (\<forall>x\<in>set row. 0 < x)"
    and "1 < length ext" "\<forall>k\<in>set ext. 0 \<le> k \<and> k < int C"
    and "length skip = length ext"
  shows "\<exists>b beta. backward_table (matrix m) ext skip = Inr b \<and>
     get_backward_probs (matrix m) ext skip = Inr beta \<and>
     length b = length m \<and> length beta = length m \<and>
     b ! (length m - 1) ! (length ext - 1) = emission m (length m - 1) (ext ! (length ext - 1)) \<and>
     b ! (length m - 1) ! (length ext - 2) = emission m (length m - 1) (ext ! (length ext - 2)) \<and>
     (\<forall>s. s + 2 < length ext \<longrightarrow> b ! (length m - 1) ! s = 0) \<and>
     (\<forall>t s. t + 1 < length m \<and> s < length ext \<longrightarrow>
        b ! t ! s =
          (b ! (t + 1) ! s +
           (if s + 1 < length ext then b ! (t + 1) ! (s + 1) else 0) +
           (if skip ! s \<noteq> 0 \<and> s + 2 < length ext then b ! (t + 1) ! (s + 2) else 0)) *
          emission m t (ext ! s)) \<and>
     (\<forall>t s. t < length m \<and> s < length ext \<longrightarrow>
        beta ! t ! s = b ! t ! s / emission m t (ext ! s))"
proof -
  let ?S = "length ext" and ?T = "length m"
  have T: "0 < ?T" using assms(1) by simp
  have T1: "?T - 1 < ?T" using T by simp
  have iT: "int ?T - 1 = int (?T - 1)" using assms(1) by (cases m) simp_all
  have width: "\<forall>row\<in>set m. length row = C" using assms(2) by simp
  have mT: "length (m ! (?T - 1)) = C"
    using width T1 by simp
  have l: "0 < ?S" "1 < ?S" "?S - 1 < ?S" "?S - 2 < ?S"
    using assms(3) by auto
  have "ext ! (?S - 1) \<in> set ext" "ext ! (?S - 2) \<in> set ext"
    using nth_mem [OF l(3)] nth_mem [OF l(4)] by blast+
  then have sym1: "0 \<le> ext ! (?S - 1)" "ext ! (?S - 1) < int (length (m ! (?T - 1)))"
    and sym2: "0 \<le> ext ! (?S - 2)" "ext ! (?S - 2) < int (length (m ! (?T - 1)))"
    using assms(4) mT by blast+
  have ne: "ext \<noteq> []" using l(1) by auto
  have e1: "py_get ext (- 1) = Inr (ext ! (?S - 1))"
    using ne by (rule py_get_last)
  have e2: "py_get ext (- 2) = Inr (ext ! (?S - 2))"
    using l(2) by (rule py_get_last_but_one)
  have r: "nd_index (matrix m) (int ?T - 1) = Inr (Arr (map Num (m ! (?T - 1))))"
    unfolding iT using T1 by (rule matrix_row)
  have c1: "cell_of (matrix m) (int ?T - 1) (ext ! (?S - 1)) =
      Inr (emission m (?T - 1) (ext ! (?S - 1)))"
    unfolding iT using T1 sym1 by (rule cell_of_matrix)
  have c2: "cell_of (matrix m) (int ?T - 1) (ext ! (?S - 2)) =
      Inr (emission m (?T - 1) (ext ! (?S - 2)))"
    unfolding iT using T1 sym2 by (rule cell_of_matrix)
  define last_row where
    "last_row = (replicate ?S (0::real))[?S - 1 := emission m (?T - 1) (ext ! (?S - 1)),
       ?S - 2 := emission m (?T - 1) (ext ! (?S - 2))]"
  have ts: "\<forall>t\<in>set (rev [0..<?T - 1]). t < ?T" by auto
  from backward_rows_matrix [OF ts width assms(5) assms(4), of last_row] obtain rows where
    rows: "backward_rows (matrix m) ext skip last_row (rev [0..<?T - 1]) = Inr rows"
      "length rows = length (rev [0..<?T - 1])"
      "\<forall>i<length (rev [0..<?T - 1]). rows ! i =
         map (backward_recurrence m ext skip ((last_row # rows) ! i) (rev [0..<?T - 1] ! i))
           [0..<?S]"
    by blast
  define L where "L = last_row # rows"
  let ?b = "rev L"
  have lenL: "length L = ?T"
    using rows(2) T by (simp add: L_def)
  have tab: "backward_table (matrix m) ext skip = Inr ?b"
    unfolding backward_table_def Let_def
    by (simp only: nd_len_matrix r e1 e2 c1 c2 andthen_def sum.case last_row_def [symmetric]
        rows(1) L_def rev.simps)
  have nth_b: "?b ! t = L ! (?T - 1 - t)" if "t < ?T" for t
    using that lenL by (simp add: rev_nth)
  have last: "?b ! (?T - 1) = last_row"
    using nth_b [OF T1] by (simp add: L_def)
  have step: "?b ! t = map (backward_recurrence m ext skip (?b ! (t + 1)) t) [0..<?S]"
    if "t + 1 < ?T" for t
  proof -
    define i where "i = ?T - 2 - t"
    have i: "i < length (rev [0..<?T - 1])" "?T - 1 - t = Suc i" "?T - 1 - (t + 1) = i"
      using that by (simp_all add: i_def)
    have "rev [0..<?T - 1] ! i = t"
      using that by (simp add: rev_nth i_def)
    with rows(3) i(1)
    have "rows ! i = map (backward_recurrence m ext skip ((last_row # rows) ! i) t) [0..<?S]"
      by simp
    moreover have "?b ! t = rows ! i"
    proof -
      have "?b ! t = L ! (?T - 1 - t)" using that by (intro nth_b) simp
      also have "\<dots> = L ! Suc i" by (simp only: i(2))
      also have "\<dots> = rows ! i" by (simp add: L_def)
      finally show ?thesis .
    qed
    moreover have "?b ! (t + 1) = (last_row # rows) ! i"
    proof -
      have "?b ! (t + 1) = L ! (?T - 1 - (t + 1))" using that by (intro nth_b)
      also have "\<dots> = L ! i" by (simp only: i(3))
      finally show ?thesis by (simp only: L_def)
    qed
    ultimately show ?thesis by simp
  qed
  have base1: "?b ! (?T - 1) ! (?S - 1) = emission m (?T - 1) (ext ! (?S - 1))"
    unfolding last last_row_def using l by (simp add: nth_list_update)
  have base2: "?b ! (?T - 1) ! (?S - 2) = emission m (?T - 1) (ext ! (?S - 2))"
    unfolding last last_row_def using l by (simp add: nth_list_update)
  have zeros: "\<forall>s. s + 2 < ?S \<longrightarrow> ?b ! (?T - 1) ! s = 0"
    unfolding last last_row_def by (simp add: nth_list_update)
  have rec: "\<forall>t s. t + 1 < ?T \<and> s < ?S \<longrightarrow>
        ?b ! t ! s =
          (?b ! (t + 1) ! s +
           (if s + 1 < ?S then ?b ! (t + 1) ! (s + 1) else 0) +
           (if skip ! s \<noteq> 0 \<and> s + 2 < ?S then ?b ! (t + 1) ! (s + 2) else 0)) *
          emission m t (ext ! s)"
  proof (intro allI impI)
    fix t s assume a: "t + 1 < ?T \<and> s < ?S"
    then have "?b ! t ! s = backward_recurrence m ext skip (?b ! (t + 1)) t s"
      using step [of t] by simp
    then show "?b ! t ! s =
          (?b ! (t + 1) ! s +
           (if s + 1 < ?S then ?b ! (t + 1) ! (s + 1) else 0) +
           (if skip ! s \<noteq> 0 \<and> s + 2 < ?S then ?b ! (t + 1) ! (s + 2) else 0)) *
          emission m t (ext ! s)"
      by (simp only: backward_recurrence_def)
  qed
  let ?beta = "map (\<lambda>t. map (\<lambda>s. ?b ! t ! s / emission m t (ext ! s)) [0..<?S]) [0..<?T]"
  have inner: "andthen (traverse (divide_cell (matrix m) ext ?b t) (rev [0..<?S]))
        (\<lambda>cells. Inr (rev cells)) =
      Inr (map (\<lambda>s. ?b ! t ! s / emission m t (ext ! s)) [0..<?S])" if "t < ?T" for t
    using that width assms(4) by (intro traverse_rev_upt divide_cell_matrix)
  have outer: "andthen (traverse (\<lambda>t. andthen
        (traverse (divide_cell (matrix m) ext ?b t) (rev [0..<?S])) (\<lambda>cells. Inr (rev cells)))
        (rev [0..<?T])) (\<lambda>rows. Inr (rev rows)) = Inr ?beta"
    using inner by (rule traverse_rev_upt)
  have res: "get_backward_probs (matrix m) ext skip = Inr ?beta"
    unfolding get_backward_probs_def tab
    using outer by (simp add: andthen_def [of "Inr (rev L)"] lenL)
  have div: "\<forall>t s. t < ?T \<and> s < ?S \<longrightarrow> ?beta ! t ! s = ?b ! t ! s / emission m t (ext ! s)"
    by simp
  have lens: "length ?b = ?T" "length ?beta = ?T"
    using lenL by simp_all
  from tab res lens base1 base2 zeros rec div show ?thesis by blast
qed

theorem backward_probs_two_phases_witness:
  "\<exists>b beta.
     backward_table (matrix [[1 / 5, 3 / 10, 1 / 2], [1 / 5, 3 / 10, 1 / 2]])
       [0, 1, 0, 2, 0] [0, 1, 0, 0, 0] = Inr b \<and>
     get_backward_probs (matrix [[1 / 5, 3 / 10, 1 / 2], [1 / 5, 3 / 10, 1 / 2]])
       [0, 1, 0, 2, 0] [0, 1, 0, 0, 0] = Inr beta \<and>
     b ! 1 ! 4 = 1 / 5 \<and> b ! 1 ! 3 = 1 / 2 \<and> b ! 1 ! 2 = 0 \<and>
     b ! 0 ! 1 = (b ! 1 ! 1 + b ! 1 ! 2 + b ! 1 ! 3) * (3 / 10) \<and>
     beta ! 0 ! 1 = b ! 0 ! 1 / (3 / 10)"
proof -
  let ?m = "[[1 / 5, 3 / 10, 1 / 2], [1 / 5, 3 / 10, 1 / 2 :: real]]"
  let ?ext = "[0, 1, 0, 2, 0 :: int]" and ?skip = "[0, 1, 0, 0, 0 :: int]"
  have h: "?m \<noteq> []" "\<forall>row\<in>set ?m. length row = 3 \<and> (\<forall>x\<in>set row. 0 < x)"
    "1 < length ?ext" "\<forall>k\<in>set ?ext. 0 \<le> k \<and> k < int 3" "length ?skip = length ?ext"
    by simp_all
  from backward_probs_two_phases [OF h] obtain b beta where
    r: "backward_table (matrix ?m) ?ext ?skip = Inr b"
      "get_backward_probs (matrix ?m) ?ext ?skip = Inr beta"
      "b ! (length ?m - 1) ! (length ?ext - 1) =
         emission ?m (length ?m - 1) (?ext ! (length ?ext - 1))"
      "b ! (length ?m - 1) ! (length ?ext - 2) =
         emission ?m (length ?m - 1) (?ext ! (length ?ext - 2))"
      "\<forall>s. s + 2 < length ?ext \<longrightarrow> b ! (length ?m - 1) ! s = 0"
      "\<forall>t s. t + 1 < length ?m \<and> s < length ?ext \<longrightarrow>
        b ! t ! s =
          (b ! (t + 1) ! s +
           (if s + 1 < length ?ext then b ! (t + 1) ! (s + 1) else 0) +
           (if ?skip ! s \<noteq> 0 \<and> s + 2 < length ?ext then b ! (t + 1) ! (s + 2) else 0)) *
          emission ?m t (?ext ! s)"
      "\<forall>t s. t < length ?m \<and> s < length ?ext \<longrightarrow>
        beta ! t ! s = b ! t ! s / emission ?m t (?ext ! s)"
    by blast
  from r(3) have b14: "b ! 1 ! 4 = 1 / 5" by (simp add: emission_def numeral_eq_Suc)
  from r(4) have b13: "b ! 1 ! 3 = 1 / 2" by (simp add: emission_def numeral_eq_Suc)
  from r(5) have b12: "b ! 1 ! 2 = 0" by (simp add: numeral_eq_Suc)
  from r(6) have "0 + 1 < length ?m \<and> 1 < length ?ext \<longrightarrow>
        b ! 0 ! 1 =
          (b ! (0 + 1) ! 1 +
           (if 1 + 1 < length ?ext then b ! (0 + 1) ! (1 + 1) else 0) +
           (if ?skip ! 1 \<noteq> 0 \<and> 1 + 2 < length ?ext then b ! (0 + 1) ! (1 + 2) else 0)) *
          emission ?m 0 (?ext ! 1)"
    by blast
  then have b01: "b ! 0 ! 1 = (b ! 1 ! 1 + b ! 1 ! 2 + b ! 1 ! 3) * (3 / 10)"
    by (simp add: emission_def numeral_eq_Suc)
  from r(7) have "0 < length ?m \<and> 1 < length ?ext \<longrightarrow>
        beta ! 0 ! 1 = b ! 0 ! 1 / emission ?m 0 (?ext ! 1)"
    by blast
  then have d: "beta ! 0 ! 1 = b ! 0 ! 1 / (3 / 10)"
    by (simp add: emission_def numeral_eq_Suc)
  from r(1,2) b14 b13 b12 b01 d show ?thesis by blast
qed

section \<open>Concrete runs\<close>

lemmas ctc_eval =
  andthen_def py_get_def slice_to_def nd_len_def nd_index_def matrix_def tensor_def cell_of_def
  extend_target_with_blank_def extended_symbols_of_def skip_connect_of_def
  get_forward_probs_def forward_cell_def
  get_backward_probs_def backward_table_def backward_cell_def divide_cell_def
  get_posterior_probs_def multiply_def shape2_def broadcast_dim_def stretch_def divide_inplace_def
  Let_def upt_rec

lemmas loss_eval =
  assign_broadcast_def truncate_target_def truncate_logits_def prepare_sample_def
  sample_posterior_def index3_def sample_loss_def forward_def shape3_def backward_def

text \<open>
  C6, as stated, fails. The claim: for the target \<open>[A]\<close> with one time step and emissions
  \<open>[0.3, 0.7]\<close> the posterior is \<open>[0.3, 0.7]\<close> at the positions 0 and 1. The backward table
  starts from the last two positions of the extended sequence only, so the leading blank
  gets no mass: the posterior is \<open>[0, 1, 0]\<close>.
\<close>

theorem one_symbol_posterior_counterexample:
  "andthen (get_forward_probs (matrix [[3 / 10, 7 / 10]]) [0, 1, 0] [0, 0, 0]) (\<lambda>alpha.
   andthen (get_backward_probs (matrix [[3 / 10, 7 / 10]]) [0, 1, 0] [0, 0, 0]) (\<lambda>beta.
   get_posterior_probs alpha beta)) = Inr [[0, 1, 0]] \<and>
   andthen (get_forward_probs (matrix [[3 / 10, 7 / 10]]) [0, 1, 0] [0, 0, 0]) (\<lambda>alpha.
   andthen (get_backward_probs (matrix [[3 / 10, 7 / 10]]) [0, 1, 0] [0, 0, 0]) (\<lambda>beta.
   get_posterior_probs alpha beta)) \<noteq> Inr [[3 / 10, 7 / 10, 0]]"
  by (simp add: ctc_eval)

text \<open>
  C6, amended: for the one-symbol target \<open>[1]\<close> with \<open>BLANK = 0\<close>, one time step and positive
  emissions \<open>[p_blank, p_symbol]\<close>, the extended sequence is \<open>[0, 1, 0]\<close> with no skip flag,
  \<open>alpha = [[p_blank, p_symbol, 0]]\<close>, \<open>beta = [[0, 1, 1]]\<close> and the posterior is \<open>[[0, 1, 0]]\<close>:
  all the mass is on the symbol.
\<close>

theorem one_symbol_posterior:
  assumes "0 < p_blank" "0 < p_symbol"
  shows "extend_target_with_blank 0 [1] = Inr ([0, 1, 0], [0, 0, 0]) \<and>
    get_forward_probs (matrix [[p_blank, p_symbol]]) [0, 1, 0] [0, 0, 0] =
      Inr [[p_blank, p_symbol, 0]] \<and>
    get_backward_probs (matrix [[p_blank, p_symbol]]) [0, 1, 0] [0, 0, 0] = Inr [[0, 1, 1]] \<and>
    get_posterior_probs [[p_blank, p_symbol, 0]] [[0, 1, 1]] = Inr [[0, 1, 0]]"
  using assms by (simp add: ctc_eval)

theorem one_symbol_posterior_witness:
  "(0::real) < 3 / 10 \<and> (0::real) < 7 / 10 \<and>
   get_forward_probs (matrix [[3 / 10, 7 / 10]]) [0, 1, 0] [0, 0, 0] = Inr [[3 / 10, 7 / 10, 0]] \<and>
   get_backward_probs (matrix [[3 / 10, 7 / 10]]) [0, 1, 0] [0, 0, 0] = Inr [[0, 1, 1]] \<and>
   get_posterior_probs [[3 / 10, 7 / 10, 0]] [[0, 1, 1]] = Inr [[0, 1, 0]]"
  using one_symbol_posterior [of "3 / 10" "7 / 10"] by simp

text \<open>
  C4. The claim: target and emissions are truncated to the declared lengths before the three
  methods run. Lines 265 and 267 assign the truncated slice back into the array it was cut
  from, which keeps its shape: here a target row \<open>[1, 2]\<close> of declared length 1 becomes
  \<open>[1, 1]\<close> and is extended to five symbols, and the second time step of a sample of declared
  input length 1 is overwritten with the first and stays in the tensor.
\<close>

theorem truncation_in_place_example:
  "prepare_sample [[[3 / 10, 7 / 10]], [[1 / 2, 1 / 2]]] [[1, 2]] [1] [1] 0 =
     Inr ([[[3 / 10, 7 / 10]], [[3 / 10, 7 / 10]]], [[1, 1]], [0, 1, 0, 1, 0], [0, 0, 0, 0, 0])"
  by (simp add: ctc_eval loss_eval)

text \<open>A declared length that is neither 1 nor the padded length raises.\<close>

lemma truncation_raises_example:
  "prepare_sample [[[3 / 10, 7 / 10]], [[1 / 2, 1 / 2]], [[1 / 2, 1 / 2]]] [[1, 2, 0]] [3] [2] 0 = Inl ValueError"
  "prepare_sample [[[3 / 10, 7 / 10]], [[1 / 2, 1 / 2]], [[1 / 2, 1 / 2]]] [[1, 2, 0]] [2] [3] 0 = Inl ValueError"
  by (simp_all add: ctc_eval loss_eval)

text \<open>
  C7. The claim: \<^verbatim>\<open>forward\<close> returns the mean of the per-sample losses. On the one-sample batch
  of the documentation (one time step, emissions \<open>[0.3, 0.7]\<close>, target \<open>[1]\<close>) it returns
  nothing: \<^verbatim>\<open>get_forward_probs\<close> is given the batch tensor, \<^verbatim>\<open>logits[0][0]\<close> is then a row of two
  numbers, and storing it into \<^verbatim>\<open>alpha[0][0]\<close> raises.
\<close>

theorem forward_raises_example:
  "forward self [[[3 / 10, 7 / 10]]] [[1]] [1] [1] = Inl ValueError"
  by (simp add: ctc_eval loss_eval)

text \<open>
  C3. The claim: the gradient is zero at every time step at or beyond the sample's input
  length. For three time steps of a one-symbol vocabulary, the target \<open>[0]\<close> and the declared
  input length 1, \<^verbatim>\<open>forward\<close> returns (the loss \<open>- 2\<close>) and \<^verbatim>\<open>backward\<close> then returns a gradient
  that is \<open>- 1\<close> at the time steps 1 and 2: its loop runs over \<^verbatim>\<open>range(T)\<close>, where the loss
  loop of \<^verbatim>\<open>forward\<close> runs over \<^verbatim>\<open>range(input_lengths[b])\<close>.
\<close>

theorem backward_beyond_input_length:
  "forward self [[[1]], [[1]], [[1]]] [[0]] [1] [1] =
     Inr (- 2, self\<lparr>self_logits := [[[1]], [[1]], [[1]]], self_target := [[0]],
                      self_input_lengths := [1], self_target_lengths := [1],
                      self_extended_symbols := [[0, 0, 0]]\<rparr>) \<and>
   backward (self\<lparr>self_logits := [[[1]], [[1]], [[1]]], self_target := [[0]],
                      self_input_lengths := [1], self_target_lengths := [1],
                      self_extended_symbols := [[0, 0, 0]]\<rparr>) =
     Inr ([[[- 1]], [[- 1]], [[- 1]]],
          self\<lparr>self_logits := [[[1]], [[1]], [[1]]], self_target := [[0]],
                      self_input_lengths := [1], self_target_lengths := [1],
                      self_extended_symbols := [[0, 0, 0]]\<rparr>)"
  by (simp add: ctc_eval loss_eval)

section \<open>\<^verbatim>\<open>CTCLoss\<close> on a vocabulary of two or more symbols\<close>

text \<open>
  The runs above are not accidents of their inputs. Sample 0 is prepared first; whatever the
  truncation does, the first row of the first time step keeps its \<open>C\<close> entries and the
  extended sequence starts with the blank 0, so \<^verbatim>\<open>get_forward_probs\<close>, given the batch tensor,
  tries to store the row \<^verbatim>\<open>logits[0][0]\<close> of \<open>C \<ge> 2\<close> numbers into \<^verbatim>\<open>alpha[0][0]\<close>. Neither
  \<^verbatim>\<open>forward\<close> nor \<^verbatim>\<open>backward\<close> returns on any non-empty batch with two or more symbols.
\<close>

lemma as_float_row: "2 \<le> length v \<Longrightarrow> as_float (Arr (map Num v)) = Inl ValueError"
  by (cases v; cases "tl v") auto

lemma traverse_Inr:
  "traverse f xs = Inr ys \<Longrightarrow> length ys = length xs \<and> (\<forall>i<length xs. f (xs ! i) = Inr (ys ! i))"
proof (induction xs arbitrary: ys)
  case Nil
  then show ?case by simp
next
  case (Cons x xs)
  then obtain y ys' where y: "f x = Inr y" "traverse f xs = Inr ys'" "ys = y # ys'"
    by (auto split: sum.splits)
  from Cons.IH [OF y(2)] y(1,3) show ?case
    by (auto simp: nth_Cons')
qed

lemma py_get_first: "py_get xs 0 = Inr x \<Longrightarrow> xs \<noteq> [] \<and> x = xs ! 0"
  by (auto simp: py_get_def split: if_splits)

lemma assign_broadcast_first:
  assumes "assign_broadcast column (slice_to n column) = Inr rows" "column \<noteq> []"
  shows "length rows = length column \<and> rows ! 0 = column ! 0"
proof (cases "length (slice_to n column) = length column")
  case True
  then have "slice_to n column = column"
    by (auto simp: slice_to_def split: if_splits)
  with assms True show ?thesis by (simp add: assign_broadcast_def)
next
  case False
  with assms have one: "length (slice_to n column) = 1"
    and rows: "rows = replicate (length column) (hd (slice_to n column))"
    by (auto simp: assign_broadcast_def split: if_splits)
  from one have "hd (slice_to n column) = hd column"
    by (auto simp: slice_to_def split: if_splits)
  with rows assms(2) show ?thesis by (simp add: hd_conv_nth)
qed

lemma andthen_Inr: "andthen m f = Inr y \<Longrightarrow> \<exists>x. m = Inr x \<and> f x = Inr y"
  by (cases m) (simp_all add: andthen_def)

lemma truncate_logits_first:
  assumes "truncate_logits logits il 0 = Inr logits'" "logits \<noteq> []"
  shows "logits' \<noteq> [] \<and> logits' ! 0 \<noteq> [] \<and> logits' ! 0 ! 0 = logits ! 0 ! 0"
proof -
  from assms(1) [unfolded truncate_logits_def] obtain n where
    "andthen (traverse (\<lambda>plane. py_get plane (int 0)) logits) (\<lambda>column.
       andthen (assign_broadcast column (slice_to n column)) (\<lambda>rows.
       Inr (map2 (\<lambda>plane row. plane[0 := row]) logits rows))) = Inr logits'"
    by (blast dest: andthen_Inr)
  then obtain column where
    c: "traverse (\<lambda>plane. py_get plane (int 0)) logits = Inr column"
    and "andthen (assign_broadcast column (slice_to n column)) (\<lambda>rows.
       Inr (map2 (\<lambda>plane row. plane[0 := row]) logits rows)) = Inr logits'"
    by (blast dest: andthen_Inr)
  then obtain rows where
    r: "assign_broadcast column (slice_to n column) = Inr rows"
    and l: "logits' = map2 (\<lambda>plane row. plane[0 := row]) logits rows"
    by (blast dest: andthen_Inr)
  have T: "0 < length logits" using assms(2) by simp
  from traverse_Inr [OF c]
  have len: "length column = length logits"
    and all: "\<forall>i<length logits. py_get (logits ! i) (int 0) = Inr (column ! i)"
    by simp_all
  from all T have "py_get (logits ! 0) 0 = Inr (column ! 0)" by simp
  from py_get_first [OF this] have p: "logits ! 0 \<noteq> []" "column ! 0 = logits ! 0 ! 0"
    by simp_all
  have cne: "column \<noteq> []" using len assms(2) by auto
  from assign_broadcast_first [OF r cne]
  have rows: "length rows = length column" "rows ! 0 = column ! 0" by simp_all
  have zl: "length (zip logits rows) = length logits"
    using rows(1) len by simp
  have l0: "logits' ! 0 = (logits ! 0)[0 := rows ! 0]"
    unfolding l using T zl rows(1) len by (simp add: nth_zip)
  have ll: "length logits' = length logits"
    unfolding l using zl by simp
  have "logits' \<noteq> []" using ll assms(2) by auto
  moreover have "logits' ! 0 \<noteq> []" unfolding l0 using p(1) by simp
  moreover have "logits' ! 0 ! 0 = logits ! 0 ! 0"
    unfolding l0 using p by (simp add: rows(2))
  ultimately show ?thesis by blast
qed

lemma hd_fold_extend:
  "acc0 \<noteq> [] \<Longrightarrow> fold (\<lambda>symbol acc. acc @ [symbol, b]) target acc0 \<noteq> [] \<and>
     fold (\<lambda>symbol acc. acc @ [symbol, b]) target acc0 ! 0 = acc0 ! 0"
  by (induction target arbitrary: acc0) (simp_all add: nth_append)

lemma prepare_sample_first:
  assumes "prepare_sample logits target il tls 0 = Inr (logits', target', ext, skip)"
    "logits \<noteq> []"
  shows "logits' \<noteq> [] \<and> logits' ! 0 \<noteq> [] \<and> logits' ! 0 ! 0 = logits ! 0 ! 0 \<and>
    ext \<noteq> [] \<and> ext ! 0 = 0"
proof -
  from assms(1) have t: "truncate_logits logits il 0 = Inr logits'"
    and e: "ext = extended_symbols_of 0 (target' ! 0)"
    by (auto simp: prepare_sample_def andthen_def extend_target_with_blank_def Let_def
        split: sum.splits)
  from hd_fold_extend [of "[0]" 0 "target' ! 0"] e
  have "ext \<noteq> [] \<and> ext ! 0 = 0" by (simp add: extended_symbols_of_def)
  with truncate_logits_first [OF t assms(2)] show ?thesis by simp
qed

lemma sample_posterior_raises:
  assumes "logits \<noteq> []" "logits ! 0 \<noteq> []" "2 \<le> length (logits ! 0 ! 0)"
    "ext \<noteq> []" "ext ! 0 = 0"
  shows "sample_posterior logits ext skip = Inl ValueError"
proof -
  have n: "nd_len (tensor logits) = Inr (length logits)"
    by (simp add: nd_len_def tensor_def)
  have r: "nd_index (tensor logits) 0 = Inr (matrix (logits ! 0))"
    using assms(1) by (simp add: nd_index_def tensor_def py_get_def)
  have e: "py_get ext 0 = Inr 0"
    using assms(4,5) by (simp add: py_get_def)
  have v: "nd_index (matrix (logits ! 0)) 0 = Inr (Arr (map Num (logits ! 0 ! 0)))"
    using assms(2) by (simp add: nd_index_def matrix_def py_get_def)
  have c: "cell_of (tensor logits) 0 0 = Inl ValueError"
    by (simp add: cell_of_def r v andthen_def as_float_row [OF assms(3)])
  have "get_forward_probs (tensor logits) ext skip = Inl ValueError"
    unfolding get_forward_probs_def Let_def
    by (simp only: n r e c andthen_def sum.case)
  then show ?thesis by (simp add: sample_posterior_def andthen_def)
qed

lemma forward_raises_on_wide_vocabulary:
  assumes "target \<noteq> []" "logits \<noteq> []" "logits ! 0 \<noteq> []" "2 \<le> length (logits ! 0 ! 0)"
  shows "\<exists>e. forward self logits target il tls = Inl e"
proof -
  from assms(1) have B: "[0..<length target] = 0 # [1..<length target]"
    by (simp add: upt_rec)
  have "\<exists>e. forward_loop logits target il tls (0 # [1..<length target]) = Inl e"
  proof (cases "prepare_sample logits target il tls 0")
    case (Inl e)
    then show ?thesis by simp
  next
    case (Inr r)
    then obtain logits' target' ext skip where
      r: "prepare_sample logits target il tls 0 = Inr (logits', target', ext, skip)"
      by (cases r) auto
    from prepare_sample_first [OF r assms(2)] assms(4)
    have "sample_posterior logits' ext skip = Inl ValueError"
      by (intro sample_posterior_raises) simp_all
    then show ?thesis by (simp add: r andthen_def)
  qed
  then show ?thesis
    by (auto simp: forward_def Let_def B andthen_def)
qed

lemma backward_raises_on_wide_vocabulary:
  assumes "self_logits self \<noteq> []" "self_logits self ! 0 \<noteq> []"
    "2 \<le> length (self_logits self ! 0 ! 0)"
  shows "\<exists>e. backward self = Inl e"
proof -
  let ?logits = "self_logits self"
  have "0 < fst (snd (shape3 ?logits))"
    using assms(1,2) by (cases ?logits) (simp_all add: shape3_def)
  then have B: "[0..<fst (snd (shape3 ?logits))] = 0 # [1..<fst (snd (shape3 ?logits))]"
    by (simp add: upt_rec)
  have h: "\<exists>e. backward_loop ?logits target il tls dY (0 # bs) = Inl e" for target il tls dY bs
  proof (cases "prepare_sample ?logits target il tls 0")
    case (Inl e)
    then show ?thesis by simp
  next
    case (Inr r)
    then obtain logits' target' ext skip where
      r: "prepare_sample ?logits target il tls 0 = Inr (logits', target', ext, skip)"
      by (cases r) auto
    from prepare_sample_first [OF r assms(1)] assms(3)
    have "sample_posterior logits' ext skip = Inl ValueError"
      by (intro sample_posterior_raises) simp_all
    then show ?thesis by (simp add: r andthen_def)
  qed
  from h obtain e where
    "backward_loop ?logits (self_target self) (self_input_lengths self)
       (self_target_lengths self) (map (map (map (\<lambda>x. 0))) ?logits)
       (0 # [1..<fst (snd (shape3 ?logits))]) = Inl e"
    by blast
  then show ?thesis
    unfolding backward_def Let_def B by (simp only: andthen_def sum.case) blast
qed

end
